theory Spec2Isabelle
  imports
    Complex_Main
    "HOL-Library.AList"
begin

section \<open>Conventions of the embedding\<close>

text \<open>
  The embedding covers the multi-symbol engine of \<open>src/passivbot_forager.py\<close> and the
  order dispatch of \<open>src/exchanges/bitget.py\<close>. A Python dict whose keys the code
  iterates or assigns is an association list in insertion order; a key that may be absent
  from a dict is an option. Exceptions are values of the type \<open>error\<close>; a function that
  can raise returns \<open>error + 'a\<close>, with \<open>Inl\<close> for the exception.

  The bot computes with Python floats (binary64). No arithmetic on floats is carried out
  in this theory: a float is a value of a type variable \<open>'f\<close>, of which only equality and,
  where the code compares, the linear order of the floats other than NaN are used, and
  every float operation the code performs (a subtraction, a product, a division, a call
  into the numeric helpers) is an argument of the function that performs it. The closed
  examples instantiate \<open>'f\<close> with the integers, or with the rationals, at values for which
  the binary64 operations give the results of the exact ones.
\<close>

datatype error =
    ZeroDivisionError
  | TypeError
  | KeyError
  | TooManyErrors   \<comment> \<open>\<open>Exception("too many errors... restarting bot.")\<close>\<close>

section \<open>The open-order store (passivbot_forager.py)\<close>

text \<open>
  An order as the exchange adapter or the websocket delivers it is a dict. Its keys that
  the bot reads are the fields of \<open>raw_order\<close>; a field is \<open>None\<close> when the key is absent.
  A value that is present has the type the adapter gives it: ids, sides and position
  sides are strings, quantities and prices are floats. The code itself tests the symbol
  for the value \<open>None\<close>, so that field has three cases.
\<close>

type_synonym symbol = string

datatype 'a entry = Absent | Null | Val 'a

record 'f raw_order =
  r_id :: "string option"
  r_symbol :: "symbol entry"
  r_side :: "string option"
  r_position_side :: "string option"
  r_qty :: "'f option"
  r_price :: "'f option"

text \<open>
  \<open>self.open_orders\<close> maps a symbol to the list of its open orders; a key is a symbol, or
  \<open>None\<close> for an order whose symbol is \<open>None\<close>. \<open>map_of\<close> reads the dict and \<open>AList.update\<close>
  assigns to a key, in place when the key exists and at the end otherwise.
\<close>

type_synonym 'f open_orders = "(symbol option \<times> 'f raw_order list) list"

definition stored :: "'f open_orders \<Rightarrow> symbol option \<Rightarrow> 'f raw_order list" where
  "stored oo k = (case map_of oo k of None \<Rightarrow> [] | Some xs \<Rightarrow> xs)"













text \<open>An open order, for the examples below.\<close>

definition order_a :: "int raw_order" where
  "order_a = \<lparr>r_id = Some ''1001'', r_symbol = Val ''BTC/USDT:USDT'', r_side = Some ''buy'',
              r_position_side = Some ''long'', r_qty = Some 2, r_price = Some 60000\<rparr>"

section \<open>Execution ticks and the restart policy (passivbot_forager.py)\<close>










text \<open>
  The live loop \<open>run_execution_loop\<close>, which \<open>start_bot\<close> runs: one iteration reads the
  clock, and awaits \<open>execute_to_exchange\<close> when the minute \<open>utc_ms() // (1000 * 60)\<close> is not
  the one of the last tick. \<open>execute_to_exchange\<close> has no guard of its own, and the loop
  catches every exception of it. The function \<open>minute\<close> is the floor division by
  \<open>1000 * 60\<close>; the result is the new \<open>prev_minute\<close> and whether the tick ran.
\<close>

definition run_execution_loop_iteration :: "('t \<Rightarrow> 'm) \<Rightarrow> 'm \<Rightarrow> 't \<Rightarrow> 'm \<times> bool" where
  "run_execution_loop_iteration minute prev_minute now =
     (let now_minute = minute now
      in if now_minute \<noteq> prev_minute then (now_minute, True) else (prev_minute, False))"

fun run_execution_loop :: "('t \<Rightarrow> 'm) \<Rightarrow> 'm \<Rightarrow> 't list \<Rightarrow> bool list" where
  "run_execution_loop minute prev_minute [] = []"
| "run_execution_loop minute prev_minute (now # readings) =
     snd (run_execution_loop_iteration minute prev_minute now)
       # run_execution_loop minute (fst (run_execution_loop_iteration minute prev_minute now))
           readings"












section \<open>The reconciler (passivbot_forager.py, exchanges/bitget.py)\<close>

text \<open>
  The order dicts of the reconciler. An actual order carries \<open>id\<close>, an ideal order
  \<open>custom_id\<close>; the key that a dict does not have is \<open>None\<close>. The symbol of an actual order
  is copied from the open order and may be \<open>None\<close>.
\<close>

record 'f order =
  symbol :: "symbol option"
  side :: string
  position_side :: string
  qty :: 'f
  price :: 'f
  reduce_only :: bool
  oid :: "string option"
  custom_id :: "string option"

text \<open>
  The dict built from an open order inside \<open>try\<close>: an absent key raises KeyError, which is
  logged, and the order is left out. \<open>fabs\<close> is \<open>abs\<close> on floats.
\<close>

definition actual_of :: "('f \<Rightarrow> 'f) \<Rightarrow> 'f raw_order \<Rightarrow> 'f order option" where
  "actual_of fabs x =
     (case (r_symbol x, r_side x, r_position_side x, r_qty x, r_price x, r_id x) of
        (Val s, Some sd, Some ps, Some q, Some p, Some i) \<Rightarrow>
          Some \<lparr>symbol = Some s, side = sd, position_side = ps, qty = fabs q, price = p,
                reduce_only = (ps = ''long'' \<and> sd = ''sell'') \<or> (ps = ''short'' \<and> sd = ''buy''),
                oid = Some i, custom_id = None\<rparr>
      | (Null, Some sd, Some ps, Some q, Some p, Some i) \<Rightarrow>
          Some \<lparr>symbol = None, side = sd, position_side = ps, qty = fabs q, price = p,
                reduce_only = (ps = ''long'' \<and> sd = ''sell'') \<or> (ps = ''short'' \<and> sd = ''buy''),
                oid = Some i, custom_id = None\<rparr>
      | _ \<Rightarrow> None)"

text \<open>
  The keys of a dict filled by assigning to the elements of a list in turn: the elements
  in the order of their first occurrence.
\<close>

fun dict_keys :: "'a list \<Rightarrow> 'a list" where
  "dict_keys [] = []"
| "dict_keys (x # xs) = x # [y \<leftarrow> dict_keys xs. y \<noteq> x]"

text \<open>
  Modelled from the spec: \<open>filter_orders\<close> of \<open>pure_funcs\<close>, which is not under \<open>src/\<close>.
  The specification (4.C9) gives it as: "Given ideal set I and actual set A keyed by
  (symbol, side, position_side, qty, price): \<open>to_cancel = A - I\<close>, \<open>to_create = I - A\<close>."
\<close>

definition order_key ::
  "'f order \<Rightarrow> symbol option \<times> string \<times> string \<times> 'f \<times> 'f" where
  "order_key x = (symbol x, side x, position_side x, qty x, price x)"

definition filter_orders ::
  "'f order list \<Rightarrow> 'f order list \<Rightarrow> 'f order list \<times> 'f order list" where
  "filter_orders actual ideal =
     ([a \<leftarrow> actual. order_key a \<notin> order_key ` set ideal],
      [i \<leftarrow> ideal. order_key i \<notin> order_key ` set actual])"

text \<open>
  The state that \<open>calc_orders_to_cancel_and_create\<close> reads: \<open>self.active_symbols\<close>, the
  store, the mode \<open>self.live_configs[symbol][pside]["mode"]\<close> (\<open>None\<close> where \<open>live_configs\<close> has
  no entry for the symbol) and the last price \<open>self.tickers[symbol]["last"]\<close> (\<open>None\<close> where
  \<open>tickers\<close> has no entry for the symbol).
\<close>

record 'f bot =
  active_symbols :: "symbol list"
  open_orders :: "'f open_orders"
  mode_of :: "symbol \<Rightarrow> string \<Rightarrow> string option"
  last_of :: "symbol \<Rightarrow> 'f option"

definition actual_orders :: "('f \<Rightarrow> 'f) \<Rightarrow> 'f bot \<Rightarrow> symbol \<Rightarrow> 'f order list" where
  "actual_orders fabs st s = List.map_filter (actual_of fabs) (stored (open_orders st) (Some s))"

text \<open>The two filters of one position side, for the mode of that side.\<close>

definition mode_filter :: "string \<Rightarrow> string \<Rightarrow> 'f order list \<Rightarrow> 'f order list" where
  "mode_filter mode pside xs =
     (if mode = ''manual'' then [x \<leftarrow> xs. position_side x \<noteq> pside]
      else if mode = ''tp_only''
        then [x \<leftarrow> xs. position_side x \<noteq> pside \<or> (position_side x = pside \<and> reduce_only x)]
      else xs)"

text \<open>
  The body of the loop over the symbols: the difference of the symbol's actual and ideal
  orders, filtered for \<open>long\<close> and then for \<open>short\<close>. \<open>ideal\<close> is the dict that
  \<open>self.calc_ideal_orders()\<close> returned.
\<close>

definition reconcile_symbol ::
  "('f \<Rightarrow> 'f) \<Rightarrow> 'f bot \<Rightarrow> (symbol \<times> 'f order list) list \<Rightarrow> symbol
     \<Rightarrow> error + ('f order list \<times> 'f order list)" where
  "reconcile_symbol fabs st ideal s =
     (case map_of ideal s of
        None \<Rightarrow> Inl KeyError
      | Some ideal_s \<Rightarrow>
         (case mode_of st s ''long'' of
            None \<Rightarrow> Inl KeyError
          | Some mode_long \<Rightarrow>
             (case mode_of st s ''short'' of
                None \<Rightarrow> Inl KeyError
              | Some mode_short \<Rightarrow>
                  Inr (mode_filter mode_short ''short''
                         (mode_filter mode_long ''long''
                            (fst (filter_orders (actual_orders fabs st s) ideal_s))),
                       mode_filter mode_short ''short''
                         (mode_filter mode_long ''long''
                            (snd (filter_orders (actual_orders fabs st s) ideal_s)))))))"

fun reconcile_all ::
  "('f \<Rightarrow> 'f) \<Rightarrow> 'f bot \<Rightarrow> (symbol \<times> 'f order list) list \<Rightarrow> symbol list
     \<Rightarrow> error + ('f order list \<times> 'f order list)" where
  "reconcile_all fabs st ideal [] = Inr ([], [])"
| "reconcile_all fabs st ideal (s # ss) =
     (case reconcile_symbol fabs st ideal s of
        Inl e \<Rightarrow> Inl e
      | Inr (to_cancel_s, to_create_s) \<Rightarrow>
         (case reconcile_all fabs st ideal ss of
            Inl e \<Rightarrow> Inl e
          | Inr (to_cancel, to_create) \<Rightarrow> Inr (to_cancel_s @ to_cancel, to_create_s @ to_create)))"

text \<open>
  \<open>sorted(xs, key=...)\<close>: the keys are computed for the elements in turn, the first
  exception leaves the call, and the sort is stable. The key of an order is
  \<open>calc_diff(x["price"], self.tickers[x["symbol"]]["last"])\<close>, where \<open>calc_diff\<close> (imported from
  \<open>njit_funcs\<close>, not under \<open>src/\<close>) is an argument: it returns a float or raises.
\<close>

fun keys_of :: "('a \<Rightarrow> error + 'k) \<Rightarrow> 'a list \<Rightarrow> error + ('k \<times> 'a) list" where
  "keys_of key [] = Inr []"
| "keys_of key (x # xs) =
     (case key x of
        Inl e \<Rightarrow> Inl e
      | Inr k \<Rightarrow> (case keys_of key xs of Inl e \<Rightarrow> Inl e | Inr kxs \<Rightarrow> Inr ((k, x) # kxs)))"

definition py_sorted :: "('a \<Rightarrow> error + 'k::linorder) \<Rightarrow> 'a list \<Rightarrow> error + 'a list" where
  "py_sorted key xs =
     (case keys_of key xs of Inl e \<Rightarrow> Inl e | Inr kxs \<Rightarrow> Inr (map snd (sort_key fst kxs)))"

definition distance_key ::
  "('f \<Rightarrow> 'f \<Rightarrow> error + 'k) \<Rightarrow> 'f bot \<Rightarrow> 'f order \<Rightarrow> error + 'k" where
  "distance_key calc_diff st x =
     (case symbol x of
        None \<Rightarrow> Inl KeyError
      | Some s \<Rightarrow> (case last_of st s of None \<Rightarrow> Inl KeyError | Some l \<Rightarrow> calc_diff (price x) l))"

definition calc_orders_to_cancel_and_create ::
  "('f \<Rightarrow> 'f) \<Rightarrow> ('f \<Rightarrow> 'f \<Rightarrow> error + 'k::linorder) \<Rightarrow> 'f bot
     \<Rightarrow> (symbol \<times> 'f order list) list \<Rightarrow> error + ('f order list \<times> 'f order list)" where
  "calc_orders_to_cancel_and_create fabs calc_diff st ideal =
     (case reconcile_all fabs st ideal (dict_keys (active_symbols st)) of
        Inl e \<Rightarrow> Inl e
      | Inr (to_cancel, to_create) \<Rightarrow>
         (case py_sorted (distance_key calc_diff st) to_cancel of
            Inl e \<Rightarrow> Inl e
          | Inr sorted_cancel \<Rightarrow>
             (case py_sorted (distance_key calc_diff st) to_create of
                Inl e \<Rightarrow> Inl e
              | Inr sorted_create \<Rightarrow> Inr (sorted_cancel, sorted_create))))"

text \<open>
  The dispatch of \<open>execute_to_exchange\<close>. \<open>xs[:n]\<close> is \<open>py_take n xs\<close>. \<open>execute_multiple\<close>
  starts one request for each of the first \<open>max_n_executions\<close> orders it is given;
  \<open>BitgetBot.execute_cancellations\<close> puts the reduce-only orders first when it is given more
  orders than the cap. The result is the list of the orders for which a request is made.
\<close>

definition py_take :: "int \<Rightarrow> 'a list \<Rightarrow> 'a list" where
  "py_take n xs = (if 0 \<le> n then take (nat n) xs else take (length xs - nat (- n)) xs)"

definition execute_multiple :: "'a list \<Rightarrow> int \<Rightarrow> 'a list" where
  "execute_multiple orders max_n_executions =
     (if orders = [] then [] else py_take max_n_executions orders)"

definition execute_cancellations :: "int \<Rightarrow> 'f order list \<Rightarrow> 'f order list" where
  "execute_cancellations max_n_cancellations_per_batch orders =
     execute_multiple
       (if int (length orders) > max_n_cancellations_per_batch
        then py_take max_n_cancellations_per_batch
               ([x \<leftarrow> orders. reduce_only x] @ [x \<leftarrow> orders. \<not> reduce_only x])
        else orders)
       max_n_cancellations_per_batch"

definition execute_orders :: "int \<Rightarrow> 'f order list \<Rightarrow> 'f order list" where
  "execute_orders max_n_creations_per_batch orders =
     execute_multiple orders max_n_creations_per_batch"

text \<open>
  \<open>execute_to_exchange\<close> after \<open>calc_orders_to_cancel_and_create\<close>: the cancellations and the
  creations for which requests are made. \<open>format_custom_ids\<close> rewrites the \<open>custom_id\<close> of
  every order to create, with a fresh uuid; it is an argument.
\<close>

definition execute_to_exchange ::
  "int \<Rightarrow> int \<Rightarrow> ('f order list \<Rightarrow> 'f order list) \<Rightarrow> 'f order list \<times> 'f order list
     \<Rightarrow> 'f order list \<times> 'f order list" where
  "execute_to_exchange max_n_cancellations_per_batch max_n_creations_per_batch
       format_custom_ids tt =
     (execute_cancellations max_n_cancellations_per_batch
        (py_take max_n_cancellations_per_batch (fst tt)),
      execute_orders max_n_creations_per_batch
        (py_take max_n_creations_per_batch (format_custom_ids (snd tt))))"

text \<open>
  The third part of the claim about the queues, in the words of the specification: when
  there are more cancellations than the cap, the reduce-only ones go first.
\<close>

definition reduce_only_preferred :: "int \<Rightarrow> 'f order list \<Rightarrow> 'f order list" where
  "reduce_only_preferred cap to_cancel =
     (if int (length to_cancel) > cap
      then py_take cap ([x \<leftarrow> to_cancel. reduce_only x] @ [x \<leftarrow> to_cancel. \<not> reduce_only x])
      else to_cancel)"

text \<open>Orders and a state for the examples below; prices and quantities are integers.\<close>

definition entry_order :: "int order" where
  "entry_order = \<lparr>symbol = Some ''BTC/USDT:USDT'', side = ''buy'', position_side = ''long'',
                  qty = 2, price = 59900, reduce_only = False, oid = Some ''1001'',
                  custom_id = None\<rparr>"

definition close_order :: "int order" where
  "close_order = \<lparr>symbol = Some ''BTC/USDT:USDT'', side = ''sell'', position_side = ''long'',
                  qty = 2, price = 63000, reduce_only = True, oid = Some ''1002'',
                  custom_id = None\<rparr>"

text \<open>
  A state with one active symbol, whose long side is in mode \<open>tp_only\<close> and whose store
  holds the open order \<open>order_a\<close> (buy long 2 @ 60000); an ideal entry with the key of that
  order and an ideal close. In the examples \<open>calc_diff\<close> is the exact quotient
  \<open>|x - y| / |y|\<close> of two integers, as a fraction.
\<close>

definition example_bot :: "int bot" where
  "example_bot =
     \<lparr>active_symbols = [''BTC/USDT:USDT''],
      open_orders = [(Some ''BTC/USDT:USDT'', [order_a])],
      mode_of = (\<lambda>s pside. if s = ''BTC/USDT:USDT''
                   then Some (if pside = ''long'' then ''tp_only'' else ''normal'') else None),
      last_of = (\<lambda>s. if s = ''BTC/USDT:USDT'' then Some 60100 else None)\<rparr>"

definition example_calc_diff :: "int \<Rightarrow> int \<Rightarrow> error + rat" where
  "example_calc_diff x y =
     (if y = 0 then Inl ZeroDivisionError else Inr (of_int \<bar>x - y\<bar> / of_int \<bar>y\<bar>))"

definition ideal_entry :: "int order" where
  "ideal_entry = \<lparr>symbol = Some ''BTC/USDT:USDT'', side = ''buy'', position_side = ''long'',
                  qty = 2, price = 60000, reduce_only = False, oid = None,
                  custom_id = Some ''entry_grid_normal_long''\<rparr>"

definition ideal_close :: "int order" where
  "ideal_close = \<lparr>symbol = Some ''BTC/USDT:USDT'', side = ''sell'', position_side = ''long'',
                  qty = 2, price = 63000, reduce_only = True, oid = None,
                  custom_id = Some ''close_grid_long''\<rparr>"

section \<open>The unstuck close (passivbot_forager.py)\<close>

text \<open>
  An ideal order before it is formatted is a tuple \<open>(qty, price, tag)\<close>. \<open>contains s t\<close> is
  Python's \<open>s in t\<close> on strings.
\<close>

type_synonym 'f order_tuple = "'f \<times> 'f \<times> string"

fun contains :: "string \<Rightarrow> string \<Rightarrow> bool" where
  "contains s [] = (s = [])"
| "contains s (c # cs) = (take (length s) (c # cs) = s \<or> contains s cs)"

text \<open>
  The state that \<open>calc_unstucking_close\<close> can read. \<open>self.positions\<close> is iterated, so it is
  an association list, from a symbol to the positions of \<open>long\<close> and \<open>short\<close>; the other
  tables are read by key, \<open>None\<close> where the table has no entry for the symbol (the read then
  raises KeyError). \<open>self.emas[pside][symbol]\<close> is an array of three averages. The realized
  profits \<open>self.pnls\<close> and the parameter \<open>unstuck_loss_allowance_pct\<close> are part of the state
  as well.
\<close>

record 'f position =
  psize :: 'f
  pprice :: 'f

record 'f side_config =
  wallet_exposure_limit :: 'f
  unstuck_threshold :: 'f
  unstuck_ema_dist :: 'f
  unstuck_close_pct :: 'f
  unstuck_loss_allowance_pct :: 'f

record 'f ticker =
  bid :: 'f
  ask :: 'f
  last :: 'f

record 'f engine =
  positions :: "(symbol \<times> ('f position \<times> 'f position)) list"
  balance :: 'f
  pnls :: "'f list"
  c_mults :: "symbol \<Rightarrow> 'f option"
  qty_steps :: "symbol \<Rightarrow> 'f option"
  price_steps :: "symbol \<Rightarrow> 'f option"
  min_qtys :: "symbol \<Rightarrow> 'f option"
  min_costs :: "symbol \<Rightarrow> 'f option"
  live_configs :: "symbol \<Rightarrow> (string \<Rightarrow> 'f side_config) option"
  tickers :: "symbol \<Rightarrow> 'f ticker option"
  emas :: "string \<Rightarrow> symbol \<Rightarrow> ('f \<times> 'f \<times> 'f) option"

text \<open>
  What \<open>calc_unstucking_close\<close> calls and is not under \<open>src/\<close> (the Rust module \<open>pbr\<close>,
  \<open>njit_funcs\<close>), and the float operations it performs itself: the constants \<open>0.0\<close> and
  \<open>1.0\<close>, sum, difference, product, quotient and negation. All of them are arguments.
\<close>

record 'f helpers =
  calc_wallet_exposure :: "'f \<Rightarrow> 'f \<Rightarrow> 'f \<Rightarrow> 'f \<Rightarrow> 'f"
  calc_pprice_diff :: "string \<Rightarrow> 'f \<Rightarrow> 'f \<Rightarrow> 'f"
  pbr_round_up :: "'f \<Rightarrow> 'f \<Rightarrow> 'f"
  pbr_round_dn :: "'f \<Rightarrow> 'f \<Rightarrow> 'f"
  pbr_cost_to_qty :: "'f \<Rightarrow> 'f \<Rightarrow> 'f \<Rightarrow> 'f"
  njit_calc_min_entry_qty :: "'f \<Rightarrow> bool \<Rightarrow> 'f \<Rightarrow> 'f \<Rightarrow> 'f \<Rightarrow> 'f \<Rightarrow> 'f"
  zero :: 'f
  one :: 'f
  fadd :: "'f \<Rightarrow> 'f \<Rightarrow> 'f"
  fsub :: "'f \<Rightarrow> 'f \<Rightarrow> 'f"
  fmul :: "'f \<Rightarrow> 'f \<Rightarrow> 'f"
  fdiv :: "'f \<Rightarrow> 'f \<Rightarrow> 'f"
  fneg :: "'f \<Rightarrow> 'f"

text \<open>Reading a table by key, and the sequencing of steps that can raise.\<close>

definition lookup :: "'a option \<Rightarrow> error + 'a" where
  "lookup v = (case v of None \<Rightarrow> Inl KeyError | Some x \<Rightarrow> Inr x)"

definition bind :: "error + 'a \<Rightarrow> ('a \<Rightarrow> error + 'b) \<Rightarrow> error + 'b" where
  "bind m f = (case m of Inl e \<Rightarrow> Inl e | Inr x \<Rightarrow> f x)"

text \<open>
  The test of the first loop for one position: it has a size, and its wallet exposure
  limit is \<open>0.0\<close> or the quotient of its wallet exposure and that limit exceeds
  \<open>unstuck_threshold\<close>.
\<close>

definition is_stuck :: "('f::linorder) helpers \<Rightarrow> 'f engine \<Rightarrow> 'f \<Rightarrow> 'f side_config \<Rightarrow> 'f position \<Rightarrow> bool" where
  "is_stuck H st c_mult cfg pos \<longleftrightarrow>
     psize pos \<noteq> zero H
     \<and> (wallet_exposure_limit cfg = zero H
        \<or> fdiv H (calc_wallet_exposure H c_mult (balance st) (psize pos) (pprice pos))
              (wallet_exposure_limit cfg)
            > unstuck_threshold cfg)"

text \<open>The first loop, for one side of one symbol: the entry added to \<open>stuck_positions\<close>.\<close>

definition stuck_entry ::
  "('f::linorder) helpers \<Rightarrow> 'f engine \<Rightarrow> symbol \<Rightarrow> string \<Rightarrow> 'f position
     \<Rightarrow> error + (symbol \<times> string \<times> 'f) list" where
  "stuck_entry H st s pside pos =
     (if psize pos = zero H then Inr []
      else
        bind (lookup (c_mults st s)) (\<lambda>c_mult.
        bind (lookup (live_configs st s)) (\<lambda>cfg.
          if is_stuck H st c_mult (cfg pside) pos
          then bind (lookup (tickers st s)) (\<lambda>t.
                 Inr [(s, pside, calc_pprice_diff H pside (pprice pos) (last t))])
          else Inr [])))"

fun collect_stuck ::
  "('f::linorder) helpers \<Rightarrow> 'f engine \<Rightarrow> (symbol \<times> ('f position \<times> 'f position)) list
     \<Rightarrow> error + (symbol \<times> string \<times> 'f) list" where
  "collect_stuck H st [] = Inr []"
| "collect_stuck H st ((s, pl, ps) # rest) =
     bind (stuck_entry H st s ''long'' pl) (\<lambda>a.
     bind (stuck_entry H st s ''short'' ps) (\<lambda>b.
     bind (collect_stuck H st rest) (\<lambda>c. Inr (a @ b @ c))))"

text \<open>
  \<open>[x for x in ideal_orders[symbol] if "close" in x[2] and pside in x[2]] if symbol in
  ideal_orders else []\<close>.
\<close>

definition ideal_closes ::
  "(symbol \<times> 'f order_tuple list) list \<Rightarrow> symbol \<Rightarrow> string \<Rightarrow> 'f order_tuple list" where
  "ideal_closes ideal_orders s pside =
     (case map_of ideal_orders s of
        None \<Rightarrow> []
      | Some xs \<Rightarrow> [x \<leftarrow> xs. contains ''close'' (snd (snd x)) \<and> contains pside (snd (snd x))])"

definition ema_max :: "('f::linorder) \<times> 'f \<times> 'f \<Rightarrow> 'f" where
  "ema_max e = (case e of (a, b, c) \<Rightarrow> max a (max b c))"

definition ema_min :: "('f::linorder) \<times> 'f \<times> 'f \<Rightarrow> 'f" where
  "ema_min e = (case e of (a, b, c) \<Rightarrow> min a (min b c))"

text \<open>
  The body of the second loop for a stuck long position: \<open>None\<close> is \<open>continue\<close> (also when
  the quantity is \<open>0.0\<close> and the loop goes on), otherwise the symbol and the close returned.
\<close>

definition unstuck_long ::
  "('f::linorder) helpers \<Rightarrow> 'f engine \<Rightarrow> (symbol \<times> 'f order_tuple list) list \<Rightarrow> symbol
     \<Rightarrow> error + (symbol \<times> 'f order_tuple) option" where
  "unstuck_long H st ideal_orders s =
     bind (lookup (tickers st s)) (\<lambda>t.
     bind (lookup (emas st ''long'' s)) (\<lambda>e.
     bind (lookup (live_configs st s)) (\<lambda>cfg.
     bind (lookup (price_steps st s)) (\<lambda>price_step.
       let close_price =
             max (ask t)
               (pbr_round_up H
                  (fmul H (ema_max e) (fadd H (one H) (unstuck_ema_dist (cfg ''long''))))
                  price_step)
       in case ideal_closes ideal_orders s ''long'' of
            [] \<Rightarrow> Inr None
          | x # xs \<Rightarrow>
             if close_price \<ge> fst (snd x) then Inr None
             else
               bind (lookup (map_of (positions st) s)) (\<lambda>pos.
               bind (lookup (c_mults st s)) (\<lambda>c_mult.
               bind (lookup (qty_steps st s)) (\<lambda>qty_step.
               bind (lookup (min_qtys st s)) (\<lambda>min_qty.
               bind (lookup (min_costs st s)) (\<lambda>min_cost.
                 let close_qty =
                       fneg H
                         (min (psize (fst pos))
                            (max (njit_calc_min_entry_qty H close_price False c_mult qty_step
                                    min_qty min_cost)
                               (pbr_round_dn H
                                  (pbr_cost_to_qty H
                                     (fmul H
                                        (fmul H (balance st) (wallet_exposure_limit (cfg ''long'')))
                                        (unstuck_close_pct (cfg ''long'')))
                                     close_price c_mult)
                                  qty_step)))
                 in if close_qty \<noteq> zero H
                    then Inr (Some (s, (close_qty, close_price, ''unstuck_close_long'')))
                    else Inr None)))))))))"

text \<open>
  The body for a stuck short position. Where the long branch reads the price of the first
  ideal close as \<open>ideal_closes[0][1]\<close>, this branch reads \<open>ideal_closes[0]["price"]\<close>: the
  element is a tuple, and indexing a tuple with a string raises TypeError. So the branch
  goes on to the next position when there is no ideal close and raises otherwise; the
  rest of it is never reached.
\<close>

definition unstuck_short ::
  "('f::linorder) helpers \<Rightarrow> 'f engine \<Rightarrow> (symbol \<times> 'f order_tuple list) list \<Rightarrow> symbol
     \<Rightarrow> error + (symbol \<times> 'f order_tuple) option" where
  "unstuck_short H st ideal_orders s =
     bind (lookup (tickers st s)) (\<lambda>t.
     bind (lookup (emas st ''short'' s)) (\<lambda>e.
     bind (lookup (live_configs st s)) (\<lambda>cfg.
     bind (lookup (price_steps st s)) (\<lambda>price_step.
       let close_price =
             min (bid t)
               (pbr_round_dn H
                  (fmul H (ema_min e) (fsub H (one H) (unstuck_ema_dist (cfg ''short''))))
                  price_step)
       in case ideal_closes ideal_orders s ''short'' of
            [] \<Rightarrow> Inr None
          | x # xs \<Rightarrow> Inl TypeError))))"

fun unstuck_loop ::
  "('f::linorder) helpers \<Rightarrow> 'f engine \<Rightarrow> (symbol \<times> 'f order_tuple list) list
     \<Rightarrow> (symbol \<times> string \<times> 'f) list \<Rightarrow> error + (symbol \<times> 'f order_tuple)" where
  "unstuck_loop H st ideal_orders [] = Inr ('''', (zero H, zero H, ''''))"
| "unstuck_loop H st ideal_orders ((s, pside, d) # rest) =
     (if pside = ''long'' then
        (case unstuck_long H st ideal_orders s of
           Inl e \<Rightarrow> Inl e
         | Inr (Some r) \<Rightarrow> Inr r
         | Inr None \<Rightarrow> unstuck_loop H st ideal_orders rest)
      else if pside = ''short'' then
        (case unstuck_short H st ideal_orders s of
           Inl e \<Rightarrow> Inl e
         | Inr (Some r) \<Rightarrow> Inr r
         | Inr None \<Rightarrow> unstuck_loop H st ideal_orders rest)
      else unstuck_loop H st ideal_orders rest)"

text \<open>
  \<open>calc_unstucking_close\<close>: the stuck positions are collected, sorted by \<open>pprice_diff\<close>
  (\<open>list.sort\<close> is stable) and tried in that order.
\<close>

definition calc_unstucking_close ::
  "('f::linorder) helpers \<Rightarrow> 'f engine \<Rightarrow> (symbol \<times> 'f order_tuple list) list
     \<Rightarrow> error + (symbol \<times> 'f order_tuple)" where
  "calc_unstucking_close H st ideal_orders =
     bind (collect_stuck H st (positions st)) (\<lambda>stuck_positions.
       unstuck_loop H st ideal_orders (sort_key (\<lambda>x. snd (snd x)) stuck_positions))"

text \<open>
  The step of \<open>calc_ideal_orders\<close> that uses it: when the close returned has a quantity
  other than \<open>0.0\<close>, the orders of that symbol whose tag contains \<open>close\<close> are dropped and the
  unstuck close is appended.
\<close>

definition apply_unstucking ::
  "('f::linorder) helpers \<Rightarrow> 'f engine \<Rightarrow> (symbol \<times> 'f order_tuple list) list
     \<Rightarrow> error + (symbol \<times> 'f order_tuple list) list" where
  "apply_unstucking H st ideal_orders =
     bind (calc_unstucking_close H st ideal_orders) (\<lambda>r.
       case r of (unstucking_symbol, unstucking_close) \<Rightarrow>
         if fst unstucking_close \<noteq> zero H
         then bind (lookup (map_of ideal_orders unstucking_symbol)) (\<lambda>xs.
                Inr (AList.update unstucking_symbol
                       ([x \<leftarrow> xs. \<not> contains ''close'' (snd (snd x))] @ [unstucking_close])
                       ideal_orders))
         else Inr ideal_orders)"



text \<open>
  Modelled from the spec: the numeric helpers of \<open>pbr\<close> and \<open>njit_funcs\<close>, which are not
  under \<open>src/\<close>, for the examples below, on exact fractions. The specification (4.C2, 4.C4)
  gives \<open>wallet_exposure = qty_to_cost(size, price) / balance\<close> with
  \<open>qty_to_cost = |qty| * mult * price\<close>, \<open>cost_to_qty\<close> as its inverse at a price,
  \<open>min_entry_qty = max(min_qty, ceil_to(qty_step, min_notional / (price * mult)))\<close>,
  rounding as snapping to a multiple of the step, and the price gap of a position to the
  last price as a fraction of the position price.
\<close>

definition example_helpers :: "rat helpers" where
  "example_helpers =
     \<lparr>calc_wallet_exposure = (\<lambda>c_mult balance size price. \<bar>size\<bar> * c_mult * price / balance),
      calc_pprice_diff = (\<lambda>pside pprice price.
         if pside = ''long'' then 1 - price / pprice else price / pprice - 1),
      pbr_round_up = (\<lambda>x step. of_int \<lceil>x / step\<rceil> * step),
      pbr_round_dn = (\<lambda>x step. of_int \<lfloor>x / step\<rfloor> * step),
      pbr_cost_to_qty = (\<lambda>cost price c_mult. cost / (price * c_mult)),
      njit_calc_min_entry_qty = (\<lambda>price inverse c_mult qty_step min_qty min_cost.
         max min_qty (of_int \<lceil>min_cost / (price * c_mult) / qty_step\<rceil> * qty_step)),
      zero = 0, one = 1,
      fadd = (\<lambda>a b. a + b), fsub = (\<lambda>a b. a - b), fmul = (\<lambda>a b. a * b),
      fdiv = (\<lambda>a b. a / b), fneg = (\<lambda>a. - a)\<rparr>"

text \<open>
  Two stuck long positions on a balance of 1000, with a limit of 1 and a threshold of 1:
  AAA holds 12 at 100 (exposure 1.2, last price 98, gap 2 percent), BBB holds 14 at 100
  (exposure 1.4, last price 99, gap 1 percent). Both have a grid close at 101. The close
  percentage is 0.125 and all steps are 1: the bleed price of BBB is 99 and its quantity
  is 125 / 99 rounded down to 1, values that binary64 gives as well.
\<close>

definition example_config :: "rat side_config" where
  "example_config =
     \<lparr>wallet_exposure_limit = 1, unstuck_threshold = 1, unstuck_ema_dist = 0,
      unstuck_close_pct = 1 / 8, unstuck_loss_allowance_pct = 1 / 100\<rparr>"

definition example_engine :: "rat engine" where
  "example_engine =
     \<lparr>positions =
        [(''AAA/USDT:USDT'', \<lparr>psize = 12, pprice = 100\<rparr>, \<lparr>psize = 0, pprice = 0\<rparr>),
         (''BBB/USDT:USDT'', \<lparr>psize = 14, pprice = 100\<rparr>, \<lparr>psize = 0, pprice = 0\<rparr>)],
      balance = 1000,
      pnls = [],
      c_mults = (\<lambda>s. Some 1),
      qty_steps = (\<lambda>s. Some 1),
      price_steps = (\<lambda>s. Some 1),
      min_qtys = (\<lambda>s. Some 1),
      min_costs = (\<lambda>s. Some 5),
      live_configs = (\<lambda>s. Some (\<lambda>pside. example_config)),
      tickers = (\<lambda>s. if s = ''AAA/USDT:USDT''
                      then Some \<lparr>bid = 98, ask = 98, last = 98\<rparr>
                      else Some \<lparr>bid = 99, ask = 99, last = 99\<rparr>),
      emas = (\<lambda>pside s. if s = ''AAA/USDT:USDT'' then Some (98, 98, 98) else Some (99, 99, 99))\<rparr>"

definition example_ideal :: "(symbol \<times> rat order_tuple list) list" where
  "example_ideal =
     [(''AAA/USDT:USDT'', [(- 12, 101, ''close_grid_long'')]),
      (''BBB/USDT:USDT'', [(- 14, 101, ''close_grid_long'')])]"

section \<open>The open-order store\<close>




















section \<open>Execution ticks\<close>




section \<open>The restart policy\<close>





section \<open>The reconciler\<close>

lemma py_take_nonneg: "0 \<le> n \<Longrightarrow> py_take n xs = take (nat n) xs"
  by (simp add: py_take_def)

lemma execute_to_exchange_cancels:
  assumes "0 \<le> n"
  shows "fst (execute_to_exchange n m fmt (tc, tcr)) = take (nat n) tc"
proof -
  have "\<not> int (length (take (nat n) tc)) > n" using assms by simp
  then show ?thesis using assms
    by (simp add: execute_to_exchange_def execute_cancellations_def execute_multiple_def py_take_nonneg)
qed

lemma set_mode_filter: "set (mode_filter m p xs) \<subseteq> set xs"
  by (auto simp: mode_filter_def)

lemma mode_filter_manual: "x \<in> set (mode_filter ''manual'' p xs) \<Longrightarrow> position_side x \<noteq> p"
  by (simp add: mode_filter_def)

lemma mode_filter_tp: "x \<in> set (mode_filter ''tp_only'' p xs) \<Longrightarrow> position_side x = p \<Longrightarrow> reduce_only x"
  by (simp add: mode_filter_def)

lemma filter_orders_equal:
  assumes "order_key ` set actual = order_key ` set ideal"
  shows "filter_orders actual ideal = ([], [])"
  using assms by (auto simp: filter_orders_def filter_empty_conv)

lemma keys_of_set: "keys_of key xs = Inr kxs \<Longrightarrow> map snd kxs = xs"
  by (induction xs arbitrary: kxs) (auto split: sum.splits)

lemma py_sorted_set: "py_sorted key xs = Inr ys \<Longrightarrow> set ys = set xs"
proof -
  assume a: "py_sorted key xs = Inr ys"
  then obtain kxs where k: "keys_of key xs = Inr kxs" and y: "ys = map snd (sort_key fst kxs)"
    by (auto simp: py_sorted_def split: sum.splits)
  have "set ys = snd ` set kxs" using y by simp
  also have "\<dots> = set (map snd kxs)" by simp
  finally show ?thesis using keys_of_set [OF k] by simp
qed

lemma py_sorted_Nil: "py_sorted key [] = Inr []"
  by (simp add: py_sorted_def)

lemma set_dict_keys: "set (dict_keys xs) = set xs"
  by (induction xs) auto

lemma reconcile_symbol_equal:
  assumes "map_of ideal s = Some ideal_s"
    and "order_key ` set ideal_s = order_key ` set (actual_orders fabs st s)"
    and "mode_of st s ''long'' \<noteq> None" "mode_of st s ''short'' \<noteq> None"
  shows "reconcile_symbol fabs st ideal s = Inr ([], [])"
proof -
  have "filter_orders (actual_orders fabs st s) ideal_s = ([], [])"
    using assms(2) by (intro filter_orders_equal) simp
  then show ?thesis using assms(1,3,4)
    by (auto simp: reconcile_symbol_def mode_filter_def)
qed

lemma reconcile_all_equal:
  assumes "\<forall>s \<in> set ss. reconcile_symbol fabs st ideal s = Inr ([], [])"
  shows "reconcile_all fabs st ideal ss = Inr ([], [])"
  using assms by (induction ss) simp_all

lemma reconcile_symbol_member:
  assumes "reconcile_symbol fabs st ideal s = Inr (a, b)" and "x \<in> set a \<union> set b"
  shows "(x \<in> set (actual_orders fabs st s) \<or> (\<exists>xs. map_of ideal s = Some xs \<and> x \<in> set xs))
         \<and> (position_side x = ''long'' \<longrightarrow> mode_of st s ''long'' \<noteq> Some ''manual''
               \<and> (mode_of st s ''long'' = Some ''tp_only'' \<longrightarrow> reduce_only x))
         \<and> (position_side x = ''short'' \<longrightarrow> mode_of st s ''short'' \<noteq> Some ''manual''
               \<and> (mode_of st s ''short'' = Some ''tp_only'' \<longrightarrow> reduce_only x))"
proof -
  from assms(1) obtain ideal_s ml ms where i: "map_of ideal s = Some ideal_s"
    and ml: "mode_of st s ''long'' = Some ml" and ms: "mode_of st s ''short'' = Some ms"
    and a: "a = mode_filter ms ''short'' (mode_filter ml ''long''
                 (fst (filter_orders (actual_orders fabs st s) ideal_s)))"
    and b: "b = mode_filter ms ''short'' (mode_filter ml ''long''
                 (snd (filter_orders (actual_orders fabs st s) ideal_s)))"
    by (auto simp: reconcile_symbol_def split: option.splits)
  have fa: "set (fst (filter_orders (actual_orders fabs st s) ideal_s))
              \<subseteq> set (actual_orders fabs st s) \<union> set ideal_s"
    and fb: "set (snd (filter_orders (actual_orders fabs st s) ideal_s))
              \<subseteq> set (actual_orders fabs st s) \<union> set ideal_s"
    by (auto simp: filter_orders_def)
  have "\<exists>ys. x \<in> set (mode_filter ms ''short'' (mode_filter ml ''long'' ys))
          \<and> set ys \<subseteq> set (actual_orders fabs st s) \<union> set ideal_s"
  proof (cases "x \<in> set a")
    case True
    then show ?thesis using a fa by blast
  next
    case False
    then have "x \<in> set b" using assms(2) by simp
    then show ?thesis using b fb by blast
  qed
  then obtain ys where x: "x \<in> set (mode_filter ms ''short'' (mode_filter ml ''long'' ys))"
    and ys: "set ys \<subseteq> set (actual_orders fabs st s) \<union> set ideal_s"
    by blast
  have x1: "x \<in> set (mode_filter ml ''long'' ys)" using x set_mode_filter by blast
  have x0: "x \<in> set ys" using x1 set_mode_filter by blast
  have long: "position_side x = ''long'' \<longrightarrow> ml \<noteq> ''manual'' \<and> (ml = ''tp_only'' \<longrightarrow> reduce_only x)"
    using x1 mode_filter_manual [of x "''long''" ys] mode_filter_tp [of x "''long''" ys] by blast
  have short: "position_side x = ''short'' \<longrightarrow> ms \<noteq> ''manual'' \<and> (ms = ''tp_only'' \<longrightarrow> reduce_only x)"
    using x mode_filter_manual [of x "''short''" "mode_filter ml ''long'' ys"]
      mode_filter_tp [of x "''short''" "mode_filter ml ''long'' ys"] by blast
  show ?thesis using x0 ys i ml ms long short by auto
qed

lemma reconcile_all_member:
  assumes "reconcile_all fabs st ideal ss = Inr (tc, tcr)" and "x \<in> set tc \<union> set tcr"
  shows "\<exists>s \<in> set ss. \<exists>a b. reconcile_symbol fabs st ideal s = Inr (a, b) \<and> x \<in> set a \<union> set b"
  using assms
proof (induction ss arbitrary: tc tcr)
  case Nil
  then show ?case by simp
next
  case (Cons s ss)
  from Cons.prems(1) obtain a b tc' tcr' where
    s: "reconcile_symbol fabs st ideal s = Inr (a, b)"
    and r: "reconcile_all fabs st ideal ss = Inr (tc', tcr')"
    and e: "tc = a @ tc'" "tcr = b @ tcr'"
    by (auto split: sum.splits)
  show ?case
  proof (cases "x \<in> set a \<union> set b")
    case True
    then show ?thesis using s by auto
  next
    case False
    then have "x \<in> set tc' \<union> set tcr'" using Cons.prems(2) e by auto
    from Cons.IH [OF r this] show ?thesis by auto
  qed
qed

lemma keys_of_key: "keys_of key xs = Inr kxs \<Longrightarrow> kx \<in> set kxs \<Longrightarrow> key (snd kx) = Inr (fst kx)"
  by (induction xs arbitrary: kxs) (auto split: sum.splits)

text \<open>The queues come out in ascending order of their keys.\<close>

lemma py_sorted_sorted:
  assumes "py_sorted key xs = Inr ys"
  shows "\<exists>ks. map key ys = map Inr ks \<and> sorted ks"
proof -
  from assms obtain kxs where k: "keys_of key xs = Inr kxs"
    and y: "ys = map snd (sort_key fst kxs)"
    by (auto simp: py_sorted_def split: sum.splits)
  have "map key ys = map Inr (map fst (sort_key fst kxs))"
    using keys_of_key [OF k] by (simp add: y)
  moreover have "sorted (map fst (sort_key fst kxs))"
    by (rule sorted_sort_key)
  ultimately show ?thesis by blast
qed

text \<open>No more requests than the cap are made.\<close>

lemma execute_to_exchange_capped:
  assumes "0 \<le> n" "0 \<le> m"
  shows "length (fst (execute_to_exchange n m fmt tt)) \<le> nat n
         \<and> length (snd (execute_to_exchange n m fmt tt)) \<le> nat m"
  using assms execute_to_exchange_cancels [OF assms(1), of m fmt "fst tt" "snd tt"]
  by (simp add: execute_to_exchange_def execute_orders_def execute_multiple_def py_take_nonneg)

lemmas example_defs = calc_orders_to_cancel_and_create_def example_bot_def actual_orders_def
  List.map_filter_def actual_of_def stored_def order_a_def reconcile_symbol_def filter_orders_def
  order_key_def mode_filter_def py_sorted_def distance_key_def example_calc_diff_def
  ideal_entry_def ideal_close_def

text \<open>
  Claim C3: in every state in which, for each active symbol, the ideal orders and the
  actual open orders have the same keys (symbol, side, position_side, qty, price),
  \<open>calc_orders_to_cancel_and_create\<close> returns an empty \<open>to_cancel\<close> and an empty \<open>to_create\<close>.
  (The call returns only if \<open>live_configs\<close> knows every active symbol.)
\<close>

theorem reconciler_idempotent:
  assumes "\<forall>s \<in> set (active_symbols st). \<exists>ideal_s. map_of ideal s = Some ideal_s
             \<and> order_key ` set ideal_s = order_key ` set (actual_orders fabs st s)"
    and "\<forall>s \<in> set (active_symbols st).
           mode_of st s ''long'' \<noteq> None \<and> mode_of st s ''short'' \<noteq> None"
  shows "calc_orders_to_cancel_and_create fabs calc_diff st ideal = Inr ([], [])"
proof -
  have "\<forall>s \<in> set (dict_keys (active_symbols st)). reconcile_symbol fabs st ideal s = Inr ([], [])"
  proof
    fix s
    assume "s \<in> set (dict_keys (active_symbols st))"
    then have s: "s \<in> set (active_symbols st)" by (simp add: set_dict_keys)
    from assms(1) s obtain ideal_s where "map_of ideal s = Some ideal_s"
      and "order_key ` set ideal_s = order_key ` set (actual_orders fabs st s)"
      by blast
    moreover from assms(2) s have "mode_of st s ''long'' \<noteq> None" "mode_of st s ''short'' \<noteq> None"
      by blast+
    ultimately show "reconcile_symbol fabs st ideal s = Inr ([], [])"
      by (rule reconcile_symbol_equal)
  qed
  then have "reconcile_all fabs st ideal (dict_keys (active_symbols st)) = Inr ([], [])"
    by (rule reconcile_all_equal)
  then show ?thesis
    by (simp add: calc_orders_to_cancel_and_create_def py_sorted_Nil)
qed

theorem reconciler_idempotent_witness:
  "calc_orders_to_cancel_and_create abs example_calc_diff example_bot
     [(''BTC/USDT:USDT'', [ideal_entry])] = Inr ([], [])"
proof -
  have h1: "\<forall>s \<in> set (active_symbols example_bot).
              \<exists>ideal_s. map_of [(''BTC/USDT:USDT'', [ideal_entry])] s = Some ideal_s
                \<and> order_key ` set ideal_s = order_key ` set (actual_orders abs example_bot s)"
    by (simp add: example_defs)
  have h2: "\<forall>s \<in> set (active_symbols example_bot).
              mode_of example_bot s ''long'' \<noteq> None \<and> mode_of example_bot s ''short'' \<noteq> None"
    by (simp add: example_bot_def)
  show ?thesis by (rule reconciler_idempotent [OF h1 h2])
qed

text \<open>
  Claim C4: for every symbol and side, if the side's mode is \<open>manual\<close>,
  \<open>calc_orders_to_cancel_and_create\<close> emits neither a cancellation nor a creation of that
  position side for that symbol; if the mode is \<open>tp_only\<close>, every cancellation and creation
  it emits of that position side for that symbol is reduce-only. (Every order is filed
  under its own symbol, as the store and \<open>calc_ideal_orders\<close> file them.)
\<close>

theorem mode_filters:
  assumes "calc_orders_to_cancel_and_create fabs calc_diff st ideal = Inr (to_cancel, to_create)"
    and "\<forall>s \<in> set (active_symbols st).
           (\<forall>x \<in> set (actual_orders fabs st s). symbol x = Some s)
           \<and> (\<forall>xs. map_of ideal s = Some xs \<longrightarrow> (\<forall>x \<in> set xs. symbol x = Some s))"
    and "x \<in> set to_cancel \<union> set to_create"
    and "symbol x = Some s" and "position_side x = pside"
    and "pside = ''long'' \<or> pside = ''short''"
  shows "mode_of st s pside \<noteq> Some ''manual''
         \<and> (mode_of st s pside = Some ''tp_only'' \<longrightarrow> reduce_only x)"
proof -
  from assms(1) obtain tc tcr where
    r: "reconcile_all fabs st ideal (dict_keys (active_symbols st)) = Inr (tc, tcr)"
    and c: "py_sorted (distance_key calc_diff st) tc = Inr to_cancel"
    and d: "py_sorted (distance_key calc_diff st) tcr = Inr to_create"
    by (auto simp: calc_orders_to_cancel_and_create_def split: sum.splits)
  have "x \<in> set tc \<union> set tcr"
    using assms(3) py_sorted_set [OF c] py_sorted_set [OF d] by simp
  from reconcile_all_member [OF r this] obtain t a b where
    t: "t \<in> set (active_symbols st)"
    and rs: "reconcile_symbol fabs st ideal t = Inr (a, b)" and x: "x \<in> set a \<union> set b"
    by (auto simp: set_dict_keys)
  note m = reconcile_symbol_member [OF rs x]
  have "symbol x = Some t" using m t assms(2) by blast
  then have ts: "t = s" using assms(4) by simp
  from assms(6) show ?thesis
  proof
    assume "pside = ''long''"
    then show ?thesis using m ts assms(5) by simp
  next
    assume "pside = ''short''"
    then show ?thesis using m ts assms(5) by simp
  qed
qed

theorem mode_filters_witness:
  "calc_orders_to_cancel_and_create abs example_calc_diff example_bot
     [(''BTC/USDT:USDT'', [ideal_close])] = Inr ([], [ideal_close])
   \<and> mode_of example_bot ''BTC/USDT:USDT'' ''long'' = Some ''tp_only''
   \<and> reduce_only ideal_close"
proof -
  have r: "calc_orders_to_cancel_and_create abs example_calc_diff example_bot
             [(''BTC/USDT:USDT'', [ideal_close])] = Inr ([], [ideal_close])"
    by (simp add: example_defs)
  have f: "\<forall>s \<in> set (active_symbols example_bot).
             (\<forall>x \<in> set (actual_orders abs example_bot s). symbol x = Some s)
             \<and> (\<forall>xs. map_of [(''BTC/USDT:USDT'', [ideal_close])] s = Some xs
                  \<longrightarrow> (\<forall>x \<in> set xs. symbol x = Some s))"
    by (simp add: example_defs)
  have x: "ideal_close \<in> set [] \<union> set [ideal_close]" by simp
  have s: "symbol ideal_close = Some ''BTC/USDT:USDT''" by (simp add: ideal_close_def)
  have p: "position_side ideal_close = ''long''" by (simp add: ideal_close_def)
  have m: "mode_of example_bot ''BTC/USDT:USDT'' ''long'' = Some ''tp_only''"
    by (simp add: example_bot_def)
  from mode_filters [OF r f x s p] m have "reduce_only ideal_close" by simp
  then show ?thesis using r m by simp
qed

text \<open>
  Claim C5: the queues are sorted by distance and the requests are capped, but the
  reduce-only cancellations are not preferred. \<open>execute_to_exchange\<close> cuts \<open>to_cancel\<close> to the
  cap before it calls \<open>execute_cancellations\<close>, so the branch there that puts reduce-only
  orders first ("prioritize cancelling reduce-only orders") never runs. With a cap of 1
  and the queue of an entry at distance 200 / 60100 and a reduce-only close at distance
  2900 / 60100, the entry is cancelled; preferring reduce-only orders would cancel the close.
\<close>

theorem reduce_only_not_preferred:
  "py_sorted (distance_key example_calc_diff example_bot) [close_order, entry_order]
     = Inr [entry_order, close_order]
   \<and> fst (execute_to_exchange 1 1 (\<lambda>xs. xs) ([entry_order, close_order], [])) = [entry_order]
   \<and> reduce_only_preferred 1 [entry_order, close_order] = [close_order]"
  by (simp add: py_sorted_def distance_key_def example_calc_diff_def example_bot_def
      execute_to_exchange_def execute_cancellations_def execute_multiple_def py_take_def
      reduce_only_preferred_def entry_order_def close_order_def)

section \<open>The unstuck close\<close>



lemmas unstuck_defs = calc_unstucking_close_def collect_stuck.simps stuck_entry_def is_stuck_def
  bind_def lookup_def unstuck_long_def unstuck_short_def ideal_closes_def ema_max_def ema_min_def
  example_helpers_def example_engine_def example_config_def example_ideal_def







lemma stuck_entry_frame:
  "stuck_entry H (st\<lparr>pnls := p\<rparr>) s pside pos = stuck_entry H st s pside pos"
  by (simp add: stuck_entry_def is_stuck_def cong: if_cong)

lemma collect_stuck_frame:
  "collect_stuck H (st\<lparr>pnls := p\<rparr>) ps = collect_stuck H st ps"
  by (induction ps) (auto simp: stuck_entry_frame)

lemma unstuck_long_frame:
  "unstuck_long H (st\<lparr>pnls := p\<rparr>) ideal_orders s = unstuck_long H st ideal_orders s"
  by (simp add: unstuck_long_def cong: if_cong list.case_cong)

lemma unstuck_short_frame:
  "unstuck_short H (st\<lparr>pnls := p\<rparr>) ideal_orders s = unstuck_short H st ideal_orders s"
  by (simp add: unstuck_short_def cong: if_cong list.case_cong)

lemma unstuck_loop_frame:
  "unstuck_loop H (st\<lparr>pnls := p\<rparr>) ideal_orders xs = unstuck_loop H st ideal_orders xs"
  by (induction xs)
    (auto simp: unstuck_long_frame unstuck_short_frame split: sum.splits option.splits)

lemma calc_unstucking_close_frame:
  "calc_unstucking_close H (st\<lparr>pnls := p\<rparr>) ideal_orders = calc_unstucking_close H st ideal_orders"
  by (simp add: calc_unstucking_close_def collect_stuck_frame unstuck_loop_frame)





text \<open>
  Claim C2: no unstuck close is placed once the realized loss of the lookback window has
  used up the allowance \<open>unstuck_loss_allowance_pct * balance\<close>. \<open>calc_unstucking_close\<close>
  decides from the positions, the tickers, the averages and the ideal closes; it reads
  neither \<open>self.pnls\<close> nor \<open>unstuck_loss_allowance_pct\<close>, and \<open>calc_AU_allowance\<close> is imported
  and never called. With an allowance of 1 percent of a balance of 1000 and a realized
  loss of 500, the close of the stuck position BBB is placed all the same.
\<close>

theorem unstuck_close_ignores_loss_allowance:
  "sum_list (pnls (example_engine\<lparr>pnls := [- 500]\<rparr>))
     < - (unstuck_loss_allowance_pct example_config * balance example_engine)
   \<and> calc_unstucking_close example_helpers (example_engine\<lparr>pnls := [- 500]\<rparr>) example_ideal
       = Inr (''BBB/USDT:USDT'', (- 1, 99, ''unstuck_close_long''))
   \<and> apply_unstucking example_helpers (example_engine\<lparr>pnls := [- 500]\<rparr>) example_ideal
       = Inr [(''AAA/USDT:USDT'', [(- 12, 101, ''close_grid_long'')]),
              (''BBB/USDT:USDT'', [(- 1, 99, ''unstuck_close_long'')])]"
proof -
  have c: "calc_unstucking_close example_helpers (example_engine\<lparr>pnls := [- 500]\<rparr>) example_ideal
     = Inr (''BBB/USDT:USDT'', (- 1, 99, ''unstuck_close_long''))"
    by (simp add: unstuck_defs)
  have a: "apply_unstucking example_helpers (example_engine\<lparr>pnls := [- 500]\<rparr>) example_ideal
     = Inr [(''AAA/USDT:USDT'', [(- 12, 101, ''close_grid_long'')]),
            (''BBB/USDT:USDT'', [(- 1, 99, ''unstuck_close_long'')])]"
    by (simp add: apply_unstucking_def c) (simp add: unstuck_defs)
  have l: "sum_list (pnls (example_engine\<lparr>pnls := [- 500]\<rparr>))
     < - (unstuck_loss_allowance_pct example_config * balance example_engine)"
    by (simp add: example_engine_def example_config_def)
  show ?thesis using l c a by simp
qed

end
